theory Spec2Isabelle
  imports Main "HOL-Library.Sublist"
begin

section \<open>Values, errors and the program state\<close>

text \<open>
  The module \<^verbatim>\<open>cyipopt/deprecated.py\<close> has three functions: the message formatter
  \<^verbatim>\<open>generate_deprecation_warning_msg\<close>, the decorator \<^verbatim>\<open>deprecated_warning\<close> and the
  constructor \<^verbatim>\<open>problem.__new__\<close>. Python strings are \<open>string\<close>, the optional
  \<^verbatim>\<open>class_name\<close> is a \<open>string option\<close> (\<open>None\<close> is Python's \<^verbatim>\<open>None\<close>), and a raised
  exception is the left summand of the result; \<open>RaisedWarning c m\<close> is the warning of
  category \<open>c\<close> with the message \<open>m\<close>, raised as an exception.
\<close>

datatype category = FutureWarning | DeprecationWarning | UserWarning

datatype exn =
    ValueError string
  | AttributeError string
  | TypeError string
  | RuntimeError string
  | RaisedWarning category string

text \<open>
  The attributes the decorator reads are attributes of mutable objects, so they live in
  the state, keyed by the identity of the object: \<^verbatim>\<open>__name__\<close> (a string; absent for
  an object that has none), \<^verbatim>\<open>__doc__\<close> (\<open>None\<close> is the value \<^verbatim>\<open>None\<close>) and
  \<^verbatim>\<open>__objclass__\<close> (the identity of the owning object; absent for a plain function).
  The owning object is an object like any other: it can be renamed, and it need not have
  a \<^verbatim>\<open>__name__\<close>.

  The ambient warning system has two parts. \<open>emitted\<close> lists, oldest first, every
  warning that was handed to \<^verbatim>\<open>warnings.warn\<close>. \<open>error_filter\<close> is the part of the
  process-wide filter policy that changes the control flow of the caller: it tells, for a
  category and a message text, whether the warning is raised as an exception. Whether a
  warning that is not raised is shown or dropped is not modelled.
\<close>

record heap =
  name_attr :: "nat \<rightharpoonup> string"
  doc_attr :: "nat \<rightharpoonup> string"
  objclass_attr :: "nat \<rightharpoonup> nat"
  emitted :: "(string \<times> category) list"
  error_filter :: "category \<Rightarrow> string \<Rightarrow> bool"

type_synonym ('a, 'r) pyfun =
  "'a list \<Rightarrow> (string \<times> 'a) list \<Rightarrow> heap \<Rightarrow> (exn + 'r) \<times> heap"

record ('a, 'r) callable =
  fid :: nat
  body :: "('a, 'r) pyfun"

text \<open>
  The function object that \<^verbatim>\<open>decorate\<close> returns: the attributes it has when it is
  returned and the three cells of its closure.
\<close>

record ('a, 'r) wrapper_obj =
  w_name :: string
  w_doc :: "string option"
  w_wrapped :: nat
  cl_func :: "('a, 'r) callable"
  cl_old_name :: string
  cl_new_name :: string

section \<open>The message formatter\<close>

abbreviation apostrophe :: char where
  "apostrophe \<equiv> CHR 0x27"

definition generate_deprecation_warning_msg ::
  "string \<Rightarrow> string \<Rightarrow> string \<Rightarrow> string option \<Rightarrow> exn + string" where
  "generate_deprecation_warning_msg what old_name new_name class_name =
     (if what = ''class'' \<and> class_name \<noteq> None then
        (let msg = ''Incorrect use of function arguments.'' in Inl (ValueError msg))
      else
        (let class_name_msg =
               (if class_name \<noteq> None
                then ''in class '' @ [apostrophe] @ the class_name @ [apostrophe] @ '' ''
                else []);
             msg = ''The '' @ what @ '' named '' @ [apostrophe] @ old_name @ [apostrophe]
                   @ '' '' @ class_name_msg @ ''will soon be ''
                   @ ''deprecated in CyIpopt. Please replace all uses and use ''
                   @ [apostrophe] @ new_name @ [apostrophe] @ '' ''
                   @ ''going forward.''
         in Inr msg))"

text \<open>
  In the definition above \<^verbatim>\<open>str(class_name)\<close> is the class name itself, a string; the
  adjacent string literals of the source are concatenated in the order they are written.
\<close>

text \<open>
  The message as the specification words it: a fixed template with four holes, the third
  of them the clause \<^verbatim>\<open>in class '...' \<close>, which is empty when no class name is given.
\<close>

definition quoted :: "string \<Rightarrow> string" where
  "quoted s = apostrophe # s @ [apostrophe]"

definition in_class_clause :: "string option \<Rightarrow> string" where
  "in_class_clause class_name =
     (case class_name of None \<Rightarrow> [] | Some c \<Rightarrow> concat [''in class '', quoted c, '' ''])"

definition spec_message :: "string \<Rightarrow> string \<Rightarrow> string \<Rightarrow> string option \<Rightarrow> string" where
  "spec_message what old_name new_name class_name =
     concat [''The '', what, '' named '', quoted old_name, '' '',
             in_class_clause class_name,
             ''will soon be deprecated in CyIpopt. Please replace all uses and use '',
             quoted new_name, '' going forward.'']"

text \<open>
  The formatter reads no state and writes none. Where it is called from code that threads
  the state, the call is this: the state goes through untouched.
\<close>

definition call_generate ::
  "string \<Rightarrow> string \<Rightarrow> string \<Rightarrow> string option \<Rightarrow> heap \<Rightarrow> (exn + string) \<times> heap" where
  "call_generate what old_name new_name class_name s =
     (generate_deprecation_warning_msg what old_name new_name class_name, s)"

section \<open>The decorator\<close>

text \<open>
  \<^verbatim>\<open>warnings.warn(msg, category)\<close>: the warning is handed to the warning system, which
  raises it as an exception when the filter policy says so and returns otherwise.
\<close>

definition warnings_warn :: "string \<Rightarrow> category \<Rightarrow> heap \<Rightarrow> (exn + unit) \<times> heap" where
  "warnings_warn msg cat s =
     (let s' = s\<lparr>emitted := emitted s @ [(msg, cat)]\<rparr>
      in if error_filter s cat msg then (Inl (RaisedWarning cat msg), s') else (Inr (), s'))"

text \<open>
  The inner function \<^verbatim>\<open>wrapper\<close>, with the free variables of its closure (\<^verbatim>\<open>func\<close>,
  \<^verbatim>\<open>old_name\<close>, \<^verbatim>\<open>new_name\<close>) as parameters. \<^verbatim>\<open>hasattr\<close> and \<^verbatim>\<open>getattr\<close> read the
  state of the call; reading \<^verbatim>\<open>__name__\<close> from an owning object that has none raises
  \<^verbatim>\<open>AttributeError\<close>. An error of these steps, of the formatter or of
  \<^verbatim>\<open>warnings.warn\<close> leaves the wrapper before \<^verbatim>\<open>func\<close> is called.
\<close>

definition wrapper :: "('a, 'r) callable \<Rightarrow> string \<Rightarrow> string \<Rightarrow> ('a, 'r) pyfun" where
  "wrapper func old_name new_name args kwargs s =
     (case (if objclass_attr s (fid func) \<noteq> None then
              (let what = ''method''
               in case name_attr s (the (objclass_attr s (fid func))) of
                    None \<Rightarrow> Inl (AttributeError ''__name__'')
                  | Some class_name \<Rightarrow>
                      generate_deprecation_warning_msg what old_name new_name (Some class_name))
            else
              (let what = ''function''
               in generate_deprecation_warning_msg what old_name new_name None))
      of Inl e \<Rightarrow> (Inl e, s)
       | Inr msg \<Rightarrow>
           (case warnings_warn msg FutureWarning s of
              (Inl e, s') \<Rightarrow> (Inl e, s')
            | (Inr u, s') \<Rightarrow> body func args kwargs s'))"

text \<open>
  \<^verbatim>\<open>functools.wraps(func)\<close>, applied to a function whose own \<^verbatim>\<open>__name__\<close> and
  \<^verbatim>\<open>__doc__\<close> are given: it copies the attributes of \<^verbatim>\<open>func\<close> over them, skipping an
  attribute that \<^verbatim>\<open>func\<close> does not have. (It copies \<^verbatim>\<open>__module__\<close>, \<^verbatim>\<open>__qualname__\<close>
  and the attribute dictionary in the same way and sets \<^verbatim>\<open>__wrapped__\<close>.)
\<close>

definition wraps ::
  "('a, 'r) callable \<Rightarrow> heap \<Rightarrow> string \<times> string option \<Rightarrow> string \<times> string option" where
  "wraps wrapped s own =
     (case name_attr s (fid wrapped) of None \<Rightarrow> fst own | Some n \<Rightarrow> n,
      doc_attr s (fid wrapped))"

text \<open>
  \<^verbatim>\<open>decorate\<close>: the wrapper is built first, then \<^verbatim>\<open>getattr(func, "__name__")\<close> fills
  the cell \<^verbatim>\<open>old_name\<close>, and raises \<^verbatim>\<open>AttributeError\<close> for a callable without a name.
\<close>

definition decorate ::
  "string \<Rightarrow> ('a, 'r) callable \<Rightarrow> heap \<Rightarrow> exn + ('a, 'r) wrapper_obj" where
  "decorate new_name func s =
     (let attrs = wraps func s (''wrapper'', None)
      in case name_attr s (fid func) of
           None \<Rightarrow> Inl (AttributeError ''__name__'')
         | Some old_name \<Rightarrow>
             Inr \<lparr>w_name = fst attrs, w_doc = snd attrs, w_wrapped = fid func,
                  cl_func = func, cl_old_name = old_name, cl_new_name = new_name\<rparr>)"

definition deprecated_warning ::
  "string \<Rightarrow> ('a, 'r) callable \<Rightarrow> heap \<Rightarrow> exn + ('a, 'r) wrapper_obj" where
  "deprecated_warning new_name = decorate new_name"

text \<open>Calling the function object that \<^verbatim>\<open>decorate\<close> returned.\<close>

definition call_wrapper :: "('a, 'r) wrapper_obj \<Rightarrow> ('a, 'r) pyfun" where
  "call_wrapper w = wrapper (cl_func w) (cl_old_name w) (cl_new_name w)"

text \<open>
  The \<^verbatim>\<open>__name__\<close> of the owning object of a callable in the state \<open>s\<close>: \<open>None\<close> when the
  callable has no \<^verbatim>\<open>__objclass__\<close>, and also when the owning object has no
  \<^verbatim>\<open>__name__\<close>.
\<close>

definition class_name_of :: "heap \<Rightarrow> ('a, 'r) callable \<Rightarrow> string option" where
  "class_name_of s func =
     (case objclass_attr s (fid func) of None \<Rightarrow> None | Some c \<Rightarrow> name_attr s c)"

section \<open>The deprecated class\<close>

text \<open>
  \<^verbatim>\<open>problem.__new__(self, *args, **kwargs)\<close>. The replacement class \<^verbatim>\<open>Problem\<close> is
  imported from \<^verbatim>\<open>ipopt_wrapper\<close>; its constructor is a parameter here. The first
  parameter, which the source calls \<^verbatim>\<open>self\<close>, is the class being constructed; it is
  passed by position, so a keyword argument of that name cannot be bound and the call
  raises \<^verbatim>\<open>TypeError\<close> before the body runs.
\<close>

definition problem_new ::
  "('a, 'o) pyfun \<Rightarrow> 'c \<Rightarrow> ('a, 'o) pyfun" where
  "problem_new Problem self args kwargs s =
     (if ''self'' \<in> set (map fst kwargs) then
        (Inl (TypeError (''problem.__new__() got multiple values for argument ''
                @ [apostrophe] @ ''self'' @ [apostrophe])), s)
      else
        (case generate_deprecation_warning_msg ''class'' ''problem'' ''Problem'' None of
           Inl e \<Rightarrow> (Inl e, s)
         | Inr msg \<Rightarrow>
             (case warnings_warn msg FutureWarning s of
                (Inl e, s') \<Rightarrow> (Inl e, s')
              | (Inr u, s') \<Rightarrow> Problem args kwargs s')))"

section \<open>Objects for the examples\<close>

text \<open>
  A function \<^verbatim>\<open>f(a, b=2)\<close> that returns \<^verbatim>\<open>a + b\<close>, the object 1 of a state where it is
  named \<^verbatim>\<open>f\<close> and belongs to no class; the same state later, after the function was
  renamed and registered as a method of the class \<^verbatim>\<open>Problem\<close> (the object 3); the
  first state under a filter that turns every \<^verbatim>\<open>FutureWarning\<close> into an error; and a
  state where the function is registered with an owning object that has no name.
\<close>

definition example_f :: "(int, int) callable" where
  "example_f =
     \<lparr>fid = 1,
      body = (\<lambda>args kwargs s.
        case args of
          [a] \<Rightarrow> (Inr (a + (case map_of kwargs ''b'' of None \<Rightarrow> 2 | Some b \<Rightarrow> b)), s)
        | [a, b] \<Rightarrow> (Inr (a + b), s)
        | _ \<Rightarrow> (Inl (TypeError ''f() takes from 1 to 2 positional arguments''), s))\<rparr>"

definition example_heap :: heap where
  "example_heap =
     \<lparr>name_attr = [1 \<mapsto> ''f''], doc_attr = [1 \<mapsto> ''Add a and b.''],
      objclass_attr = Map.empty, emitted = [], error_filter = (\<lambda>cat msg. False)\<rparr>"

definition example_heap_later :: heap where
  "example_heap_later =
     \<lparr>name_attr = [1 \<mapsto> ''renamed'', 3 \<mapsto> ''Problem''],
      doc_attr = [1 \<mapsto> ''Add a and b.''],
      objclass_attr = [1 \<mapsto> 3], emitted = [], error_filter = (\<lambda>cat msg. False)\<rparr>"

definition example_heap_strict :: heap where
  "example_heap_strict =
     \<lparr>name_attr = [1 \<mapsto> ''f''], doc_attr = [1 \<mapsto> ''Add a and b.''],
      objclass_attr = Map.empty, emitted = [],
      error_filter = (\<lambda>cat msg. cat = FutureWarning)\<rparr>"

definition example_heap_nameless :: heap where
  "example_heap_nameless =
     \<lparr>name_attr = [1 \<mapsto> ''f''], doc_attr = [1 \<mapsto> ''Add a and b.''],
      objclass_attr = [1 \<mapsto> 4], emitted = [], error_filter = (\<lambda>cat msg. False)\<rparr>"

definition example_wrapper :: "(int, int) wrapper_obj" where
  "example_wrapper =
     \<lparr>w_name = ''f'', w_doc = Some ''Add a and b.'', w_wrapped = 1,
      cl_func = example_f, cl_old_name = ''f'', cl_new_name = ''g''\<rparr>"

text \<open>A replacement constructor for the examples: its instance keeps the arguments.\<close>

definition example_Problem :: "(int, int list \<times> (string \<times> int) list) pyfun" where
  "example_Problem args kwargs s = (Inr (args, kwargs), s)"

text \<open>
  A callable that registers itself as a method of the class \<^verbatim>\<open>Problem\<close> (the object 3)
  when it is called (it sets its own \<^verbatim>\<open>__objclass__\<close>), the object 2 of a state where
  it is named \<^verbatim>\<open>addOption\<close>.
\<close>

definition example_g :: "(int, int) callable" where
  "example_g =
     \<lparr>fid = 2,
      body = (\<lambda>args kwargs s.
        (Inr 0, s\<lparr>objclass_attr := (objclass_attr s)(2 \<mapsto> 3)\<rparr>))\<rparr>"

definition example_heap_g :: heap where
  "example_heap_g =
     \<lparr>name_attr = [2 \<mapsto> ''addOption'', 3 \<mapsto> ''Problem''], doc_attr = Map.empty,
      objclass_attr = Map.empty, emitted = [], error_filter = (\<lambda>cat msg. False)\<rparr>"

definition example_wrapper_g :: "(int, int) wrapper_obj" where
  "example_wrapper_g =
     \<lparr>w_name = ''addOption'', w_doc = None, w_wrapped = 2,
      cl_func = example_g, cl_old_name = ''addOption'', cl_new_name = ''add_option''\<rparr>"

section \<open>The formatter: results\<close>

lemma generate_error:
  "what = ''class'' \<and> class_name \<noteq> None \<Longrightarrow>
   generate_deprecation_warning_msg what old_name new_name class_name =
     Inl (ValueError ''Incorrect use of function arguments.'')"
  by (simp add: generate_deprecation_warning_msg_def)

lemma generate_message:
  "\<not> (what = ''class'' \<and> class_name \<noteq> None) \<Longrightarrow>
   generate_deprecation_warning_msg what old_name new_name class_name =
     Inr (spec_message what old_name new_name class_name)"
  by (cases class_name)
     (simp_all add: generate_deprecation_warning_msg_def spec_message_def
        in_class_clause_def quoted_def Let_def)

text \<open>
  C1. The formatter raises if and only if \<^verbatim>\<open>what == "class"\<close> and a class name is given,
  whatever the class name is; the error is then the \<^verbatim>\<open>ValueError\<close> with the message
  \<^verbatim>\<open>Incorrect use of function arguments.\<close>, and in every other case the result is a
  string.
\<close>

theorem generate_raises_iff:
  "((\<exists>e. generate_deprecation_warning_msg what old_name new_name class_name = Inl e)
      \<longleftrightarrow> (what = ''class'' \<and> class_name \<noteq> None))
   \<and> (what = ''class'' \<and> class_name \<noteq> None \<longrightarrow>
        generate_deprecation_warning_msg what old_name new_name class_name =
          Inl (ValueError ''Incorrect use of function arguments.''))
   \<and> (\<not> (what = ''class'' \<and> class_name \<noteq> None) \<longrightarrow>
        (\<exists>m. generate_deprecation_warning_msg what old_name new_name class_name = Inr m))"
proof (intro conjI impI)
  show "(\<exists>e. generate_deprecation_warning_msg what old_name new_name class_name = Inl e)
          \<longleftrightarrow> (what = ''class'' \<and> class_name \<noteq> None)"
  proof
    assume raised: "\<exists>e. generate_deprecation_warning_msg what old_name new_name class_name = Inl e"
    show "what = ''class'' \<and> class_name \<noteq> None"
    proof (rule ccontr)
      assume valid: "\<not> (what = ''class'' \<and> class_name \<noteq> None)"
      from raised generate_message [OF valid] show False by simp
    qed
  next
    assume rejected: "what = ''class'' \<and> class_name \<noteq> None"
    from generate_error [OF rejected]
    show "\<exists>e. generate_deprecation_warning_msg what old_name new_name class_name = Inl e"
      by blast
  qed
next
  assume rejected: "what = ''class'' \<and> class_name \<noteq> None"
  from generate_error [OF rejected]
  show "generate_deprecation_warning_msg what old_name new_name class_name =
          Inl (ValueError ''Incorrect use of function arguments.'')" .
next
  assume valid: "\<not> (what = ''class'' \<and> class_name \<noteq> None)"
  from generate_message [OF valid]
  show "\<exists>m. generate_deprecation_warning_msg what old_name new_name class_name = Inr m"
    by blast
qed

theorem generate_raises_iff_witness:
  "generate_deprecation_warning_msg ''class'' ''problem'' ''Problem'' (Some []) =
     Inl (ValueError ''Incorrect use of function arguments.'')
   \<and> (\<exists>m. generate_deprecation_warning_msg ''class'' ''problem'' ''Problem'' None = Inr m)
   \<and> (\<exists>m. generate_deprecation_warning_msg ''method'' ''addOption'' ''add_option''
             (Some ''Problem'') = Inr m)"
  using generate_raises_iff [of "''class''" "''problem''" "''Problem''" "Some []"]
        generate_raises_iff [of "''class''" "''problem''" "''Problem''" None]
        generate_raises_iff [of "''method''" "''addOption''" "''add_option''" "Some ''Problem''"]
  by simp

text \<open>
  C2. Whenever the arguments pass validation, the result is exactly the template of the
  specification, with the clause \<^verbatim>\<open>in class '...' \<close> present exactly when a class name is
  given; the call for the function \<^verbatim>\<open>problem\<close> renamed to \<^verbatim>\<open>Problem\<close> gives the sentence
  the specification quotes.
\<close>

theorem generate_exact_message:
  "(\<not> (what = ''class'' \<and> class_name \<noteq> None) \<longrightarrow>
      generate_deprecation_warning_msg what old_name new_name class_name =
        Inr (spec_message what old_name new_name class_name))
   \<and> in_class_clause None = []
   \<and> in_class_clause (Some c) = ''in class '' @ [apostrophe] @ c @ [apostrophe] @ '' ''
   \<and> generate_deprecation_warning_msg ''function'' ''problem'' ''Problem'' None =
       Inr ''The function named 'problem' will soon be deprecated in CyIpopt. Please replace all uses and use 'Problem' going forward.''"
proof -
  have a: "\<not> (what = ''class'' \<and> class_name \<noteq> None) \<longrightarrow>
      generate_deprecation_warning_msg what old_name new_name class_name =
        Inr (spec_message what old_name new_name class_name)"
    using generate_message by blast
  have b: "in_class_clause None = []"
    by (simp add: in_class_clause_def)
  have c: "in_class_clause (Some c) = ''in class '' @ [apostrophe] @ c @ [apostrophe] @ '' ''"
    by (simp add: in_class_clause_def quoted_def)
  have d: "generate_deprecation_warning_msg ''function'' ''problem'' ''Problem'' None =
       Inr ''The function named 'problem' will soon be deprecated in CyIpopt. Please replace all uses and use 'Problem' going forward.''"
    by (simp add: generate_deprecation_warning_msg_def)
  from a b c d show ?thesis by blast
qed

theorem generate_exact_message_witness:
  "\<not> (''method'' = ''class'' \<and> Some ''Problem'' \<noteq> None)
   \<and> generate_deprecation_warning_msg ''method'' ''addOption'' ''add_option'' (Some ''Problem'') =
     Inr ''The method named 'addOption' in class 'Problem' will soon be deprecated in CyIpopt. Please replace all uses and use 'add_option' going forward.''"
  using generate_exact_message [of "''method''" "Some ''Problem''" "''addOption''" "''add_option''"]
  by (simp add: spec_message_def in_class_clause_def quoted_def)

text \<open>
  C9. The value of \<^verbatim>\<open>what\<close> is never validated: every \<^verbatim>\<open>what\<close> other than
  \<^verbatim>\<open>"class"\<close>, inside or outside the three expected values, is accepted with or without
  a class name and is interpolated into the message. So a class name together with a
  \<^verbatim>\<open>what\<close> other than \<^verbatim>\<open>"class"\<close> is accepted, which the docstring says is rejected.
\<close>

theorem generate_accepts_any_what:
  "what \<noteq> ''class'' \<Longrightarrow>
   generate_deprecation_warning_msg what old_name new_name class_name =
     Inr (''The '' @ what @ '' named '' @ quoted old_name @ '' '' @ in_class_clause class_name
          @ ''will soon be deprecated in CyIpopt. Please replace all uses and use ''
          @ quoted new_name @ '' going forward.'')"
proof -
  assume "what \<noteq> ''class''"
  then have valid: "\<not> (what = ''class'' \<and> class_name \<noteq> None)"
    by simp
  show ?thesis
    unfolding generate_message [OF valid] by (simp add: spec_message_def)
qed

theorem generate_accepts_any_what_witness:
  "''widget'' \<noteq> ''class''
   \<and> generate_deprecation_warning_msg ''widget'' ''old'' ''new'' (Some ''Owner'') =
       Inr ''The widget named 'old' in class 'Owner' will soon be deprecated in CyIpopt. Please replace all uses and use 'new' going forward.''
   \<and> generate_deprecation_warning_msg [] ''old'' ''new'' None =
       Inr ''The  named 'old' will soon be deprecated in CyIpopt. Please replace all uses and use 'new' going forward.''"
  using generate_accepts_any_what [of "''widget''" "''old''" "''new''" "Some ''Owner''"]
        generate_accepts_any_what [of "[]" "''old''" "''new''" None]
  by (simp add: in_class_clause_def quoted_def)

text \<open>
  C8. The formatter is a function of its four arguments alone: equal arguments give equal
  results (the same string or the same error), the state of the caller goes through the
  call unchanged, and the result does not depend on that state.
\<close>

theorem generate_pure:
  "(what = what' \<and> old_name = old_name' \<and> new_name = new_name' \<and> class_name = class_name' \<longrightarrow>
      generate_deprecation_warning_msg what old_name new_name class_name =
      generate_deprecation_warning_msg what' old_name' new_name' class_name')
   \<and> snd (call_generate what old_name new_name class_name s) = s
   \<and> fst (call_generate what old_name new_name class_name s) =
       fst (call_generate what old_name new_name class_name s')"
  by (simp add: call_generate_def)

theorem generate_pure_witness:
  "generate_deprecation_warning_msg ''class'' ''problem'' ''Problem'' None =
     generate_deprecation_warning_msg ''class'' ''problem'' ''Problem'' None
   \<and> snd (call_generate ''class'' ''problem'' ''Problem'' (Some ''C'') example_heap) = example_heap
   \<and> fst (call_generate ''class'' ''problem'' ''Problem'' (Some ''C'') example_heap) =
       fst (call_generate ''class'' ''problem'' ''Problem'' (Some ''C'') example_heap_later)"
  using generate_pure [of "''class''" "''class''" "''problem''" "''problem''" "''Problem''"
      "''Problem''" None None example_heap example_heap]
    generate_pure [of "''class''" "''class''" "''problem''" "''problem''" "''Problem''"
      "''Problem''" "Some ''C''" "Some ''C''" example_heap example_heap_later]
  by simp

section \<open>The substring \<^verbatim>\<open>in class\<close>\<close>

lemma sublist_separator:
  assumes "c \<notin> set xs"
  shows "sublist xs (a @ c # b) \<longleftrightarrow> sublist xs a \<or> sublist xs b"
proof -
  have no_prefix: "ys = []" if "prefix ys (c # b)" "set ys \<subseteq> set xs" for ys
    using that assms by (cases ys) auto
  have "sublist xs (c # b) \<longleftrightarrow> sublist xs b"
  proof
    assume "sublist xs (c # b)"
    then consider "prefix xs (c # b)" | "sublist xs b"
      by (auto simp: sublist_Cons_right)
    then show "sublist xs b"
    proof cases
      case 1
      then have "xs = []" using no_prefix [of xs] by simp
      then show ?thesis by simp
    next
      case 2
      then show ?thesis .
    qed
  next
    assume "sublist xs b"
    then show "sublist xs (c # b)" by (simp add: sublist_Cons_right)
  qed
  moreover have "sublist xs a"
    if "xs = xs1 @ xs2" "suffix xs1 a" "prefix xs2 (c # b)" for xs1 xs2
  proof -
    have "xs2 = []" using no_prefix [of xs2] that by auto
    with that show ?thesis by auto
  qed
  ultimately show ?thesis
    unfolding sublist_append [of xs a "c # b"] by blast
qed

lemma apostrophe_free: "apostrophe \<notin> set ''in class''"
  by simp

lemma message_without_class:
  "spec_message what old_name new_name None =
     (''The '' @ what @ '' named '') @ apostrophe # old_name @ apostrophe #
     '' will soon be deprecated in CyIpopt. Please replace all uses and use '' @
     apostrophe # new_name @ apostrophe # '' going forward.''"
  by (simp add: spec_message_def in_class_clause_def quoted_def)

lemma in_class_only_from_names:
  assumes "what = ''function'' \<or> what = ''method''"
  shows "sublist ''in class'' (spec_message what old_name new_name None) \<longleftrightarrow>
           sublist ''in class'' old_name \<or> sublist ''in class'' new_name"
proof -
  have head: "\<not> sublist ''in class'' (''The '' @ what @ '' named '')"
    using assms by (auto simp: sublist_Cons_right)
  have middle: "\<not> sublist ''in class''
      '' will soon be deprecated in CyIpopt. Please replace all uses and use ''"
    by (simp add: sublist_Cons_right)
  have tail: "\<not> sublist ''in class'' '' going forward.''"
    by (simp add: sublist_Cons_right)
  show ?thesis
    unfolding message_without_class
    using head middle tail
    by (simp only: sublist_separator [OF apostrophe_free]) simp
qed

text \<open>
  C7, as stated, fails: the names are interpolated verbatim, so a name that contains
  \<^verbatim>\<open>in class\<close> puts it into the message.
\<close>

theorem generate_in_class_counterexample:
  "generate_deprecation_warning_msg ''function'' ''in class'' ''Problem'' None =
     Inr ''The function named 'in class' will soon be deprecated in CyIpopt. Please replace all uses and use 'Problem' going forward.''
   \<and> sublist ''in class'' ''The function named 'in class' will soon be deprecated in CyIpopt. Please replace all uses and use 'Problem' going forward.''"
  by (simp add: generate_deprecation_warning_msg_def sublist_Cons_right)

text \<open>
  C7, amended. For \<^verbatim>\<open>what\<close> one of \<^verbatim>\<open>"function"\<close> and \<^verbatim>\<open>"method"\<close>, no class name,
  and names that do not themselves contain \<^verbatim>\<open>in class\<close>, the formatter returns a string
  that does not contain \<^verbatim>\<open>in class\<close>.
\<close>

theorem generate_no_in_class:
  assumes "what = ''function'' \<or> what = ''method''"
    and "\<not> sublist ''in class'' old_name" and "\<not> sublist ''in class'' new_name"
  shows "\<exists>msg. generate_deprecation_warning_msg what old_name new_name None = Inr msg
           \<and> \<not> sublist ''in class'' msg"
proof -
  have "generate_deprecation_warning_msg what old_name new_name None =
          Inr (spec_message what old_name new_name None)"
    by (rule generate_message) simp
  moreover have "\<not> sublist ''in class'' (spec_message what old_name new_name None)"
    using assms by (simp add: in_class_only_from_names)
  ultimately show ?thesis by blast
qed

theorem generate_no_in_class_witness:
  "\<not> sublist ''in class'' ''problem'' \<and> \<not> sublist ''in class'' ''Problem''
   \<and> (\<exists>msg. generate_deprecation_warning_msg ''function'' ''problem'' ''Problem'' None = Inr msg
          \<and> \<not> sublist ''in class'' msg)"
proof -
  have a: "\<not> sublist ''in class'' ''problem''" by (simp add: sublist_Cons_right)
  have b: "\<not> sublist ''in class'' ''Problem''" by (simp add: sublist_Cons_right)
  from generate_no_in_class [of "''function''", OF _ a b] a b show ?thesis by simp
qed

section \<open>The warning system: results\<close>

lemma warnings_warn_returns:
  "\<not> error_filter s cat msg \<Longrightarrow>
   warnings_warn msg cat s = (Inr (), s\<lparr>emitted := emitted s @ [(msg, cat)]\<rparr>)"
  by (simp add: warnings_warn_def)

lemma warnings_warn_raises:
  "error_filter s cat msg \<Longrightarrow>
   warnings_warn msg cat s =
     (Inl (RaisedWarning cat msg), s\<lparr>emitted := emitted s @ [(msg, cat)]\<rparr>)"
  by (simp add: warnings_warn_def)

section \<open>The deprecated class: results\<close>

lemma problem_msg:
  "generate_deprecation_warning_msg ''class'' ''problem'' ''Problem'' None =
     Inr ''The class named 'problem' will soon be deprecated in CyIpopt. Please replace all uses and use 'Problem' going forward.''"
  by (simp add: generate_deprecation_warning_msg_def)

text \<open>
  C3, as stated, fails for two kinds of input. A keyword argument named \<^verbatim>\<open>self\<close> cannot
  be passed: the call raises \<^verbatim>\<open>TypeError\<close> with no warning, and \<^verbatim>\<open>Problem\<close> is not
  called, here with a replacement constructor that takes the argument. And under a filter
  that turns the warning into an error the warning is raised and \<^verbatim>\<open>Problem\<close> is not
  called.
\<close>

theorem problem_new_counterexample:
  "problem_new example_Problem () [] [(''self'', 1)] example_heap =
     (Inl (TypeError (''problem.__new__() got multiple values for argument ''
             @ [apostrophe] @ ''self'' @ [apostrophe])), example_heap)
   \<and> example_Problem [] [(''self'', 1)] example_heap =
       (Inr ([], [(''self'', 1)]), example_heap)
   \<and> problem_new example_Problem () [] [(''x'', 1), (''y'', 2)] example_heap_strict =
       (Inl (RaisedWarning FutureWarning
          ''The class named 'problem' will soon be deprecated in CyIpopt. Please replace all uses and use 'Problem' going forward.''),
        example_heap_strict\<lparr>emitted :=
          [(''The class named 'problem' will soon be deprecated in CyIpopt. Please replace all uses and use 'Problem' going forward.'',
            FutureWarning)]\<rparr>)
   \<and> example_Problem [] [(''x'', 1), (''y'', 2)] example_heap_strict =
       (Inr ([], [(''x'', 1), (''y'', 2)]), example_heap_strict)"
proof (intro conjI)
  show "problem_new example_Problem () [] [(''self'', 1)] example_heap =
     (Inl (TypeError (''problem.__new__() got multiple values for argument ''
             @ [apostrophe] @ ''self'' @ [apostrophe])), example_heap)"
    by (simp add: problem_new_def)
  show "example_Problem [] [(''self'', 1)] example_heap =
       (Inr ([], [(''self'', 1)]), example_heap)"
    by (simp add: example_Problem_def)
  show "problem_new example_Problem () [] [(''x'', 1), (''y'', 2)] example_heap_strict =
       (Inl (RaisedWarning FutureWarning
          ''The class named 'problem' will soon be deprecated in CyIpopt. Please replace all uses and use 'Problem' going forward.''),
        example_heap_strict\<lparr>emitted :=
          [(''The class named 'problem' will soon be deprecated in CyIpopt. Please replace all uses and use 'Problem' going forward.'',
            FutureWarning)]\<rparr>)"
    by (simp add: problem_new_def problem_msg warnings_warn_def example_heap_strict_def)
  show "example_Problem [] [(''x'', 1), (''y'', 2)] example_heap_strict =
       (Inr ([], [(''x'', 1), (''y'', 2)]), example_heap_strict)"
    by (simp add: example_Problem_def)
qed

text \<open>
  C3, amended. With any positional arguments and any keyword arguments none of which is
  named \<^verbatim>\<open>self\<close>, and when the filter does not turn the warning into an error,
  constructing \<^verbatim>\<open>problem\<close> emits one \<^verbatim>\<open>FutureWarning\<close>, whose message is the
  formatter's for the class \<^verbatim>\<open>problem\<close> renamed to \<^verbatim>\<open>Problem\<close> with no class name, and
  then is the construction of \<^verbatim>\<open>Problem\<close> with the same arguments: its value, its error
  and its effects. The class under construction plays no part, and nothing else is kept.
\<close>

theorem problem_new_redirects:
  assumes "''self'' \<notin> set (map fst kwargs)"
    and "\<not> error_filter s FutureWarning
           ''The class named 'problem' will soon be deprecated in CyIpopt. Please replace all uses and use 'Problem' going forward.''"
  shows "generate_deprecation_warning_msg ''class'' ''problem'' ''Problem'' None =
     Inr ''The class named 'problem' will soon be deprecated in CyIpopt. Please replace all uses and use 'Problem' going forward.''
   \<and> problem_new Problem cls args kwargs s =
       Problem args kwargs
         (s\<lparr>emitted := emitted s @
            [(''The class named 'problem' will soon be deprecated in CyIpopt. Please replace all uses and use 'Problem' going forward.'',
              FutureWarning)]\<rparr>)"
proof
  show "generate_deprecation_warning_msg ''class'' ''problem'' ''Problem'' None =
     Inr ''The class named 'problem' will soon be deprecated in CyIpopt. Please replace all uses and use 'Problem' going forward.''"
    by (rule problem_msg)
  have "problem_new Problem cls args kwargs s =
      (case warnings_warn
         ''The class named 'problem' will soon be deprecated in CyIpopt. Please replace all uses and use 'Problem' going forward.''
         FutureWarning s of
         (Inl e, s') \<Rightarrow> (Inl e, s')
       | (Inr u, s') \<Rightarrow> Problem args kwargs s')"
    using assms(1) by (simp add: problem_new_def problem_msg)
  then show "problem_new Problem cls args kwargs s =
       Problem args kwargs
         (s\<lparr>emitted := emitted s @
            [(''The class named 'problem' will soon be deprecated in CyIpopt. Please replace all uses and use 'Problem' going forward.'',
              FutureWarning)]\<rparr>)"
    unfolding warnings_warn_returns [OF assms(2)] by simp
qed

theorem problem_new_redirects_witness:
  "''self'' \<notin> set (map fst [(''x'', 1::int), (''y'', 2)])
   \<and> \<not> error_filter example_heap FutureWarning
         ''The class named 'problem' will soon be deprecated in CyIpopt. Please replace all uses and use 'Problem' going forward.''
   \<and> problem_new example_Problem () [] [(''x'', 1), (''y'', 2)] example_heap =
     (Inr ([], [(''x'', 1), (''y'', 2)]),
      example_heap\<lparr>emitted :=
        [(''The class named 'problem' will soon be deprecated in CyIpopt. Please replace all uses and use 'Problem' going forward.'',
          FutureWarning)]\<rparr>)"
proof -
  have keys: "''self'' \<notin> set (map fst [(''x'', 1::int), (''y'', 2)])"
    by simp
  have quiet: "\<not> error_filter example_heap FutureWarning
         ''The class named 'problem' will soon be deprecated in CyIpopt. Please replace all uses and use 'Problem' going forward.''"
    by (simp add: example_heap_def)
  from problem_new_redirects [OF keys quiet, of example_Problem "()" "[]"] keys quiet
  show ?thesis
    by (simp add: example_Problem_def example_heap_def)
qed

section \<open>The decorator: results\<close>

lemma class_name_of_named:
  assumes "\<forall>c. objclass_attr s (fid func) = Some c \<longrightarrow> name_attr s c \<noteq> None"
  shows "class_name_of s func = None \<longleftrightarrow> objclass_attr s (fid func) = None"
  using assms by (auto simp: class_name_of_def split: option.splits)

lemma wrapper_unfold:
  assumes "\<forall>c. objclass_attr s (fid func) = Some c \<longrightarrow> name_attr s c \<noteq> None"
  shows "wrapper func old_name new_name args kwargs s =
     (case warnings_warn
        (spec_message (if class_name_of s func = None then ''function'' else ''method'')
           old_name new_name (class_name_of s func))
        FutureWarning s of
        (Inl e, s') \<Rightarrow> (Inl e, s')
      | (Inr u, s') \<Rightarrow> body func args kwargs s')"
proof (cases "objclass_attr s (fid func)")
  case None
  have "generate_deprecation_warning_msg ''function'' old_name new_name None =
          Inr (spec_message ''function'' old_name new_name None)"
    by (rule generate_message) simp
  with None show ?thesis by (simp add: wrapper_def class_name_of_def)
next
  case (Some c)
  with assms obtain n where n: "name_attr s c = Some n" by auto
  have "generate_deprecation_warning_msg ''method'' old_name new_name (Some n) =
          Inr (spec_message ''method'' old_name new_name (Some n))"
    by (rule generate_message) simp
  with Some n show ?thesis by (simp add: wrapper_def class_name_of_def)
qed

lemma wrapper_nameless:
  assumes "objclass_attr s (fid func) = Some c" and "name_attr s c = None"
  shows "wrapper func old_name new_name args kwargs s = (Inl (AttributeError ''__name__''), s)"
  using assms by (simp add: wrapper_def)

lemma decorate_closure:
  assumes "deprecated_warning new_name f s0 = Inr w"
  shows "cl_func w = f" and "name_attr s0 (fid f) = Some (cl_old_name w)"
    and "cl_new_name w = new_name" and "w_name w = cl_old_name w"
    and "w_doc w = doc_attr s0 (fid f)" and "w_wrapped w = fid f"
  using assms
  by (auto simp: deprecated_warning_def decorate_def wraps_def Let_def split: option.splits)

lemma example_decorated: "deprecated_warning ''g'' example_f example_heap = Inr example_wrapper"
  by (simp add: deprecated_warning_def decorate_def wraps_def example_f_def example_heap_def
      example_wrapper_def)

text \<open>
  A call of a decorated callable whose owning object, if it has one, has a name: the
  message is the specification's for the names of the closure and the owning object's
  name of the state of the call; it goes to \<^verbatim>\<open>warnings.warn\<close> once, and then either the
  warning is raised or the callable is called.
\<close>

lemma call_wrapper_unfold:
  assumes dec: "deprecated_warning new_name f s0 = Inr w"
    and named: "\<forall>c. objclass_attr s (fid f) = Some c \<longrightarrow> name_attr s c \<noteq> None"
  shows "call_wrapper w args kwargs s =
     (let msg = spec_message (if class_name_of s f = None then ''function'' else ''method'')
                  (cl_old_name w) new_name (class_name_of s f);
          s1 = s\<lparr>emitted := emitted s @ [(msg, FutureWarning)]\<rparr>
      in if error_filter s FutureWarning msg
         then (Inl (RaisedWarning FutureWarning msg), s1)
         else body f args kwargs s1)"
proof -
  have closure: "cl_func w = f" "cl_new_name w = new_name"
    using dec by (rule decorate_closure)+
  show ?thesis
    unfolding call_wrapper_def closure wrapper_unfold [OF named]
    by (simp add: warnings_warn_def Let_def)
qed

text \<open>
  C10. The wrapper that the decorator returns has the \<^verbatim>\<open>__name__\<close> and the \<^verbatim>\<open>__doc__\<close>
  of the callable it wraps, and refers to it as \<^verbatim>\<open>__wrapped__\<close>.
\<close>

theorem decorate_preserves_metadata:
  assumes "deprecated_warning new_name f s0 = Inr w"
  shows "name_attr s0 (fid f) = Some (w_name w) \<and> w_doc w = doc_attr s0 (fid f)
       \<and> w_wrapped w = fid f"
  using decorate_closure [OF assms] by simp

theorem decorate_preserves_metadata_witness:
  "deprecated_warning ''g'' example_f example_heap = Inr example_wrapper
   \<and> w_name example_wrapper = ''f'' \<and> name_attr example_heap (fid example_f) = Some ''f''
   \<and> w_doc example_wrapper = Some ''Add a and b.''
   \<and> doc_attr example_heap (fid example_f) = Some ''Add a and b.''"
  using decorate_preserves_metadata [OF example_decorated] example_decorated
  by (simp add: example_wrapper_def)

text \<open>
  C4, as stated, fails: the wrapper has two exits before it calls the wrapped callable.
  Under a filter that turns the warning into an error the call \<^verbatim>\<open>w(5)\<close> raises the
  warning where \<^verbatim>\<open>f(5)\<close> returns 7; and when the callable's \<^verbatim>\<open>__objclass__\<close> has no
  \<^verbatim>\<open>__name__\<close> the call raises \<^verbatim>\<open>AttributeError\<close>.
\<close>

theorem wrapper_forwards_counterexample:
  "deprecated_warning ''g'' example_f example_heap_strict = Inr example_wrapper
   \<and> body example_f [5] [] example_heap_strict = (Inr 7, example_heap_strict)
   \<and> call_wrapper example_wrapper [5] [] example_heap_strict =
       (Inl (RaisedWarning FutureWarning
          ''The function named 'f' will soon be deprecated in CyIpopt. Please replace all uses and use 'g' going forward.''),
        example_heap_strict\<lparr>emitted :=
          [(''The function named 'f' will soon be deprecated in CyIpopt. Please replace all uses and use 'g' going forward.'',
            FutureWarning)]\<rparr>)
   \<and> deprecated_warning ''g'' example_f example_heap_nameless = Inr example_wrapper
   \<and> body example_f [5] [] example_heap_nameless = (Inr 7, example_heap_nameless)
   \<and> call_wrapper example_wrapper [5] [] example_heap_nameless =
       (Inl (AttributeError ''__name__''), example_heap_nameless)"
proof (intro conjI)
  show "deprecated_warning ''g'' example_f example_heap_strict = Inr example_wrapper"
    by (simp add: deprecated_warning_def decorate_def wraps_def example_f_def
        example_heap_strict_def example_wrapper_def)
  show "body example_f [5] [] example_heap_strict = (Inr 7, example_heap_strict)"
    by (simp add: example_f_def)
  show "call_wrapper example_wrapper [5] [] example_heap_strict =
       (Inl (RaisedWarning FutureWarning
          ''The function named 'f' will soon be deprecated in CyIpopt. Please replace all uses and use 'g' going forward.''),
        example_heap_strict\<lparr>emitted :=
          [(''The function named 'f' will soon be deprecated in CyIpopt. Please replace all uses and use 'g' going forward.'',
            FutureWarning)]\<rparr>)"
    by (simp add: call_wrapper_def wrapper_def example_wrapper_def example_f_def
        example_heap_strict_def generate_deprecation_warning_msg_def warnings_warn_def)
  show "deprecated_warning ''g'' example_f example_heap_nameless = Inr example_wrapper"
    by (simp add: deprecated_warning_def decorate_def wraps_def example_f_def
        example_heap_nameless_def example_wrapper_def)
  show "body example_f [5] [] example_heap_nameless = (Inr 7, example_heap_nameless)"
    by (simp add: example_f_def)
  show "call_wrapper example_wrapper [5] [] example_heap_nameless =
       (Inl (AttributeError ''__name__''), example_heap_nameless)"
    by (simp add: call_wrapper_def wrapper_def example_wrapper_def example_f_def
        example_heap_nameless_def)
qed

text \<open>
  C4, amended. When the callable's \<^verbatim>\<open>__objclass__\<close>, if it has one, has a \<^verbatim>\<open>__name__\<close>
  and the filter does not turn the emitted warning into an error, a call of the wrapper
  is, after that one warning, the call of the wrapped callable with the same positional
  and keyword arguments: the same value or the same error, and the same final state. For
  a callable that does not look at the warning channel the outcome is that of calling it
  directly.
\<close>

theorem wrapper_forwards:
  assumes "deprecated_warning new_name f s0 = Inr w"
    and "\<forall>c. objclass_attr s (fid f) = Some c \<longrightarrow> name_attr s c \<noteq> None"
  shows "\<exists>msg.
      generate_deprecation_warning_msg
        (if objclass_attr s (fid f) = None then ''function'' else ''method'')
        (cl_old_name w) new_name (class_name_of s f) = Inr msg
    \<and> (\<not> error_filter s FutureWarning msg \<longrightarrow>
         call_wrapper w args kwargs s =
           body f args kwargs (s\<lparr>emitted := emitted s @ [(msg, FutureWarning)]\<rparr>)
       \<and> ((\<forall>m. fst (body f args kwargs (s\<lparr>emitted := emitted s @ [(m, FutureWarning)]\<rparr>)) =
                fst (body f args kwargs s)) \<longrightarrow>
            fst (call_wrapper w args kwargs s) = fst (body f args kwargs s)))"
proof -
  let ?what = "if objclass_attr s (fid f) = None then ''function'' else ''method''"
  let ?msg = "spec_message ?what (cl_old_name w) new_name (class_name_of s f)"
  have kind: "(class_name_of s f = None) = (objclass_attr s (fid f) = None)"
    using assms(2) by (rule class_name_of_named)
  have pin: "generate_deprecation_warning_msg ?what (cl_old_name w) new_name
               (class_name_of s f) = Inr ?msg"
    by (rule generate_message) (simp add: kind)
  have call: "call_wrapper w args kwargs s =
      body f args kwargs (s\<lparr>emitted := emitted s @ [(?msg, FutureWarning)]\<rparr>)"
    if "\<not> error_filter s FutureWarning ?msg"
    using that call_wrapper_unfold [OF assms, of args kwargs] by (simp add: Let_def kind)
  have "fst (call_wrapper w args kwargs s) = fst (body f args kwargs s)"
    if "\<not> error_filter s FutureWarning ?msg"
      and "\<forall>m. fst (body f args kwargs (s\<lparr>emitted := emitted s @ [(m, FutureWarning)]\<rparr>)) =
                fst (body f args kwargs s)"
    using that(2) call [OF that(1)] by simp
  with pin call show ?thesis by blast
qed

theorem wrapper_forwards_witness:
  "deprecated_warning ''g'' example_f example_heap = Inr example_wrapper
   \<and> \<not> error_filter example_heap FutureWarning
         ''The function named 'f' will soon be deprecated in CyIpopt. Please replace all uses and use 'g' going forward.''
   \<and> fst (body example_f [5] [] example_heap) = Inr 7
   \<and> fst (call_wrapper example_wrapper [5] [] example_heap) = Inr 7
   \<and> fst (call_wrapper example_wrapper [5] [(''b'', 10)] example_heap) = Inr 15
   \<and> fst (call_wrapper example_wrapper [] [] example_heap) =
       Inl (TypeError ''f() takes from 1 to 2 positional arguments'')"
proof -
  have named: "\<forall>c. objclass_attr example_heap (fid example_f) = Some c \<longrightarrow>
                   name_attr example_heap c \<noteq> None"
    by (simp add: example_heap_def)
  have quiet: "\<not> error_filter example_heap FutureWarning m" for m
    by (simp add: example_heap_def)
  have direct: "fst (body example_f [5] [] example_heap) = Inr 7"
    by (simp add: example_f_def)
  have "fst (call_wrapper example_wrapper args kwargs example_heap) =
          fst (body example_f args kwargs example_heap)" for args kwargs
  proof -
    from wrapper_forwards [OF example_decorated named, of args kwargs]
    obtain msg where
      "\<not> error_filter example_heap FutureWarning msg \<longrightarrow>
         call_wrapper example_wrapper args kwargs example_heap =
           body example_f args kwargs
             (example_heap\<lparr>emitted := emitted example_heap @ [(msg, FutureWarning)]\<rparr>)"
      by blast
    with quiet have "call_wrapper example_wrapper args kwargs example_heap =
           body example_f args kwargs
             (example_heap\<lparr>emitted := emitted example_heap @ [(msg, FutureWarning)]\<rparr>)"
      by blast
    then show ?thesis
      by (simp add: example_f_def split: list.split)
  qed
  with example_decorated quiet direct show ?thesis
    by (simp add: example_f_def)
qed

text \<open>
  C5. The old name in the message is the \<^verbatim>\<open>__name__\<close> the callable had in the state of
  the decoration, whatever its name is when the wrapper is called; the choice between
  \<^verbatim>\<open>"method"\<close> with the owning class's name and \<^verbatim>\<open>"function"\<close> with no class name is
  made from the \<^verbatim>\<open>__objclass__\<close> of the state of each call, and the class's name is
  read in that state too. The message so built is the one handed to \<^verbatim>\<open>warnings.warn\<close>.
\<close>

theorem wrapper_message_sources:
  assumes "deprecated_warning new_name f s0 = Inr w"
    and "\<forall>c. objclass_attr s (fid f) = Some c \<longrightarrow> name_attr s c \<noteq> None"
  shows "\<exists>old_name msg.
           name_attr s0 (fid f) = Some old_name
         \<and> generate_deprecation_warning_msg
             (if objclass_attr s (fid f) = None then ''function'' else ''method'')
             old_name new_name (class_name_of s f) = Inr msg
         \<and> call_wrapper w args kwargs s =
             (case warnings_warn msg FutureWarning s of
                (Inl e, s') \<Rightarrow> (Inl e, s')
              | (Inr u, s') \<Rightarrow> body f args kwargs s')"
proof -
  let ?what = "if objclass_attr s (fid f) = None then ''function'' else ''method''"
  let ?msg = "spec_message ?what (cl_old_name w) new_name (class_name_of s f)"
  have closure: "cl_func w = f" "name_attr s0 (fid f) = Some (cl_old_name w)"
    "cl_new_name w = new_name"
    using assms(1) by (rule decorate_closure)+
  have kind: "(class_name_of s f = None) = (objclass_attr s (fid f) = None)"
    using assms(2) by (rule class_name_of_named)
  have "generate_deprecation_warning_msg ?what (cl_old_name w) new_name (class_name_of s f) =
          Inr ?msg"
    by (rule generate_message) (simp add: kind)
  moreover have "call_wrapper w args kwargs s =
      (case warnings_warn ?msg FutureWarning s of
         (Inl e, s') \<Rightarrow> (Inl e, s')
       | (Inr u, s') \<Rightarrow> body f args kwargs s')"
    unfolding call_wrapper_def closure wrapper_unfold [OF assms(2)] kind ..
  ultimately show ?thesis using closure(2) by blast
qed

theorem wrapper_message_sources_witness:
  "deprecated_warning ''g'' example_f example_heap = Inr example_wrapper
   \<and> name_attr example_heap (fid example_f) = Some ''f''
   \<and> name_attr example_heap_later (fid example_f) = Some ''renamed''
   \<and> objclass_attr example_heap_later (fid example_f) = Some 3
   \<and> name_attr example_heap_later 3 = Some ''Problem''
   \<and> call_wrapper example_wrapper [5] [] example_heap =
       (Inr 7, example_heap\<lparr>emitted :=
          [(''The function named 'f' will soon be deprecated in CyIpopt. Please replace all uses and use 'g' going forward.'',
            FutureWarning)]\<rparr>)
   \<and> call_wrapper example_wrapper [5] [] example_heap_later =
       (Inr 7, example_heap_later\<lparr>emitted :=
          [(''The method named 'f' in class 'Problem' will soon be deprecated in CyIpopt. Please replace all uses and use 'g' going forward.'',
            FutureWarning)]\<rparr>)"
proof -
  have named: "\<forall>c. objclass_attr example_heap (fid example_f) = Some c \<longrightarrow>
                   name_attr example_heap c \<noteq> None"
    by (simp add: example_heap_def)
  have named_later: "\<forall>c. objclass_attr example_heap_later (fid example_f) = Some c \<longrightarrow>
                   name_attr example_heap_later c \<noteq> None"
    by (simp add: example_heap_later_def example_f_def)
  have attrs: "name_attr example_heap (fid example_f) = Some ''f''"
    "name_attr example_heap_later (fid example_f) = Some ''renamed''"
    "objclass_attr example_heap_later (fid example_f) = Some 3"
    "name_attr example_heap_later 3 = Some ''Problem''"
    by (simp_all add: example_heap_def example_heap_later_def example_f_def)
  from wrapper_message_sources [OF example_decorated named, of "[5]" "[]"]
  have first: "call_wrapper example_wrapper [5] [] example_heap =
       (Inr 7, example_heap\<lparr>emitted :=
          [(''The function named 'f' will soon be deprecated in CyIpopt. Please replace all uses and use 'g' going forward.'',
            FutureWarning)]\<rparr>)"
    by (auto simp: example_f_def example_heap_def warnings_warn_def class_name_of_def
        generate_deprecation_warning_msg_def)
  from wrapper_message_sources [OF example_decorated named_later, of "[5]" "[]"]
  have later: "call_wrapper example_wrapper [5] [] example_heap_later =
       (Inr 7, example_heap_later\<lparr>emitted :=
          [(''The method named 'f' in class 'Problem' will soon be deprecated in CyIpopt. Please replace all uses and use 'g' going forward.'',
            FutureWarning)]\<rparr>)"
    by (auto simp: example_f_def example_heap_def example_heap_later_def warnings_warn_def
        class_name_of_def generate_deprecation_warning_msg_def)
  from example_decorated attrs first later show ?thesis by simp
qed

text \<open>
  C6, as stated, fails in its last part: the message is built anew on every invocation, so
  a callable whose \<^verbatim>\<open>__objclass__\<close> is set between two calls (here by the callable
  itself) is announced first as a function and then as a method.
\<close>

theorem wrapper_message_text_counterexample:
  "deprecated_warning ''add_option'' example_g example_heap_g = Inr example_wrapper_g
   \<and> emitted (snd (call_wrapper example_wrapper_g [] []
                     (snd (call_wrapper example_wrapper_g [] [] example_heap_g)))) =
       [(''The function named 'addOption' will soon be deprecated in CyIpopt. Please replace all uses and use 'add_option' going forward.'',
         FutureWarning),
        (''The method named 'addOption' in class 'Problem' will soon be deprecated in CyIpopt. Please replace all uses and use 'add_option' going forward.'',
         FutureWarning)]"
proof (intro conjI)
  show "deprecated_warning ''add_option'' example_g example_heap_g = Inr example_wrapper_g"
    by (simp add: deprecated_warning_def decorate_def wraps_def example_g_def example_heap_g_def
        example_wrapper_g_def)
  have first: "call_wrapper example_wrapper_g [] [] example_heap_g =
      (Inr 0, \<lparr>name_attr = [2 \<mapsto> ''addOption'', 3 \<mapsto> ''Problem''], doc_attr = Map.empty,
               objclass_attr = [2 \<mapsto> 3],
               emitted = [(''The function named 'addOption' will soon be deprecated in CyIpopt. Please replace all uses and use 'add_option' going forward.'',
                           FutureWarning)],
               error_filter = (\<lambda>cat msg. False)\<rparr>)"
    by (simp add: call_wrapper_def wrapper_def example_wrapper_g_def example_g_def
        example_heap_g_def generate_deprecation_warning_msg_def warnings_warn_def)
  show "emitted (snd (call_wrapper example_wrapper_g [] []
                     (snd (call_wrapper example_wrapper_g [] [] example_heap_g)))) =
       [(''The function named 'addOption' will soon be deprecated in CyIpopt. Please replace all uses and use 'add_option' going forward.'',
         FutureWarning),
        (''The method named 'addOption' in class 'Problem' will soon be deprecated in CyIpopt. Please replace all uses and use 'add_option' going forward.'',
         FutureWarning)]"
    unfolding first
    by (simp add: call_wrapper_def wrapper_def example_wrapper_g_def example_g_def
        generate_deprecation_warning_msg_def warnings_warn_def)
qed

text \<open>
  C6, amended. Every invocation of a wrapped callable whose \<^verbatim>\<open>__objclass__\<close>, if it has
  one, has a \<^verbatim>\<open>__name__\<close> hands exactly one warning, of category \<^verbatim>\<open>FutureWarning\<close>, to
  the warning system before it delegates; when the filter turns that warning into an error
  it is raised and the callable is not called. So two calls emit two warnings, one per
  call, and the two have the same message text whenever the \<^verbatim>\<open>__objclass__\<close> is present
  at both calls or absent at both, and has the same \<^verbatim>\<open>__name__\<close> at both.
\<close>

theorem wrapper_warns_once_per_call:
  assumes "deprecated_warning new_name f s0 = Inr w"
    and "\<forall>c. objclass_attr s (fid f) = Some c \<longrightarrow> name_attr s c \<noteq> None"
  shows "(\<exists>msg. call_wrapper w args kwargs s =
            (if error_filter s FutureWarning msg
             then (Inl (RaisedWarning FutureWarning msg),
                   s\<lparr>emitted := emitted s @ [(msg, FutureWarning)]\<rparr>)
             else body f args kwargs (s\<lparr>emitted := emitted s @ [(msg, FutureWarning)]\<rparr>)))
    \<and> ((\<forall>c. objclass_attr s' (fid f) = Some c \<longrightarrow> name_attr s' c \<noteq> None)
        \<and> class_name_of s' f = class_name_of s f \<longrightarrow>
         (\<exists>msg. call_wrapper w args kwargs s =
                  (if error_filter s FutureWarning msg
                   then (Inl (RaisedWarning FutureWarning msg),
                         s\<lparr>emitted := emitted s @ [(msg, FutureWarning)]\<rparr>)
                   else body f args kwargs (s\<lparr>emitted := emitted s @ [(msg, FutureWarning)]\<rparr>))
              \<and> call_wrapper w args' kwargs' s' =
                  (if error_filter s' FutureWarning msg
                   then (Inl (RaisedWarning FutureWarning msg),
                         s'\<lparr>emitted := emitted s' @ [(msg, FutureWarning)]\<rparr>)
                   else body f args' kwargs'
                          (s'\<lparr>emitted := emitted s' @ [(msg, FutureWarning)]\<rparr>))))"
proof (intro conjI impI)
  let ?msg = "spec_message (if class_name_of s f = None then ''function'' else ''method'')
                (cl_old_name w) new_name (class_name_of s f)"
  have c1: "call_wrapper w args kwargs s =
            (if error_filter s FutureWarning ?msg
             then (Inl (RaisedWarning FutureWarning ?msg),
                   s\<lparr>emitted := emitted s @ [(?msg, FutureWarning)]\<rparr>)
             else body f args kwargs (s\<lparr>emitted := emitted s @ [(?msg, FutureWarning)]\<rparr>))"
    using call_wrapper_unfold [OF assms, of args kwargs] by (simp add: Let_def)
  from c1 show "\<exists>msg. call_wrapper w args kwargs s =
            (if error_filter s FutureWarning msg
             then (Inl (RaisedWarning FutureWarning msg),
                   s\<lparr>emitted := emitted s @ [(msg, FutureWarning)]\<rparr>)
             else body f args kwargs (s\<lparr>emitted := emitted s @ [(msg, FutureWarning)]\<rparr>))"
    by (rule exI)
  assume same: "(\<forall>c. objclass_attr s' (fid f) = Some c \<longrightarrow> name_attr s' c \<noteq> None)
        \<and> class_name_of s' f = class_name_of s f"
  then have named': "\<forall>c. objclass_attr s' (fid f) = Some c \<longrightarrow> name_attr s' c \<noteq> None"
    and name: "class_name_of s' f = class_name_of s f"
    by simp_all
  have c2: "call_wrapper w args' kwargs' s' =
            (if error_filter s' FutureWarning ?msg
             then (Inl (RaisedWarning FutureWarning ?msg),
                   s'\<lparr>emitted := emitted s' @ [(?msg, FutureWarning)]\<rparr>)
             else body f args' kwargs' (s'\<lparr>emitted := emitted s' @ [(?msg, FutureWarning)]\<rparr>))"
    using call_wrapper_unfold [OF assms(1) named', of args' kwargs'] name
    by (simp add: Let_def)
  from c1 c2 have "call_wrapper w args kwargs s =
            (if error_filter s FutureWarning ?msg
             then (Inl (RaisedWarning FutureWarning ?msg),
                   s\<lparr>emitted := emitted s @ [(?msg, FutureWarning)]\<rparr>)
             else body f args kwargs (s\<lparr>emitted := emitted s @ [(?msg, FutureWarning)]\<rparr>))
       \<and> call_wrapper w args' kwargs' s' =
            (if error_filter s' FutureWarning ?msg
             then (Inl (RaisedWarning FutureWarning ?msg),
                   s'\<lparr>emitted := emitted s' @ [(?msg, FutureWarning)]\<rparr>)
             else body f args' kwargs' (s'\<lparr>emitted := emitted s' @ [(?msg, FutureWarning)]\<rparr>))"
    by (rule conjI)
  then show "\<exists>msg. call_wrapper w args kwargs s =
                  (if error_filter s FutureWarning msg
                   then (Inl (RaisedWarning FutureWarning msg),
                         s\<lparr>emitted := emitted s @ [(msg, FutureWarning)]\<rparr>)
                   else body f args kwargs (s\<lparr>emitted := emitted s @ [(msg, FutureWarning)]\<rparr>))
              \<and> call_wrapper w args' kwargs' s' =
                  (if error_filter s' FutureWarning msg
                   then (Inl (RaisedWarning FutureWarning msg),
                         s'\<lparr>emitted := emitted s' @ [(msg, FutureWarning)]\<rparr>)
                   else body f args' kwargs'
                          (s'\<lparr>emitted := emitted s' @ [(msg, FutureWarning)]\<rparr>))"
    by (rule exI)
qed

theorem wrapper_warns_once_per_call_witness:
  "deprecated_warning ''g'' example_f example_heap = Inr example_wrapper
   \<and> class_name_of (snd (call_wrapper example_wrapper [5] [] example_heap)) example_f =
       class_name_of example_heap example_f
   \<and> call_wrapper example_wrapper [5] [] example_heap =
       (Inr 7, example_heap\<lparr>emitted :=
         [(''The function named 'f' will soon be deprecated in CyIpopt. Please replace all uses and use 'g' going forward.'',
           FutureWarning)]\<rparr>)
   \<and> call_wrapper example_wrapper [1, 2] []
        (snd (call_wrapper example_wrapper [5] [] example_heap)) =
       (Inr 3, example_heap\<lparr>emitted :=
         [(''The function named 'f' will soon be deprecated in CyIpopt. Please replace all uses and use 'g' going forward.'',
           FutureWarning),
          (''The function named 'f' will soon be deprecated in CyIpopt. Please replace all uses and use 'g' going forward.'',
           FutureWarning)]\<rparr>)"
proof -
  let ?s1 = "snd (call_wrapper example_wrapper [5] [] example_heap)"
  have named: "\<forall>c. objclass_attr example_heap (fid example_f) = Some c \<longrightarrow>
                   name_attr example_heap c \<noteq> None"
    by (simp add: example_heap_def)
  have first: "call_wrapper example_wrapper [5] [] example_heap =
       (Inr 7, example_heap\<lparr>emitted :=
          [(''The function named 'f' will soon be deprecated in CyIpopt. Please replace all uses and use 'g' going forward.'',
            FutureWarning)]\<rparr>)"
    by (simp add: call_wrapper_def wrapper_def example_wrapper_def example_f_def
        example_heap_def generate_deprecation_warning_msg_def warnings_warn_def)
  have named1: "\<forall>c. objclass_attr ?s1 (fid example_f) = Some c \<longrightarrow> name_attr ?s1 c \<noteq> None"
    unfolding first by (simp add: example_heap_def)
  have same: "class_name_of ?s1 example_f = class_name_of example_heap example_f"
    unfolding first by (simp add: class_name_of_def example_heap_def example_f_def)
  from wrapper_warns_once_per_call [OF example_decorated named,
      where args = "[5]" and kwargs = "[]" and s' = ?s1 and args' = "[1, 2]" and kwargs' = "[]"]
    named1 same
  obtain msg where both:
    "call_wrapper example_wrapper [5] [] example_heap =
       (if error_filter example_heap FutureWarning msg
        then (Inl (RaisedWarning FutureWarning msg),
              example_heap\<lparr>emitted := emitted example_heap @ [(msg, FutureWarning)]\<rparr>)
        else body example_f [5] []
               (example_heap\<lparr>emitted := emitted example_heap @ [(msg, FutureWarning)]\<rparr>))"
    "call_wrapper example_wrapper [1, 2] [] ?s1 =
       (if error_filter ?s1 FutureWarning msg
        then (Inl (RaisedWarning FutureWarning msg),
              ?s1\<lparr>emitted := emitted ?s1 @ [(msg, FutureWarning)]\<rparr>)
        else body example_f [1, 2] [] (?s1\<lparr>emitted := emitted ?s1 @ [(msg, FutureWarning)]\<rparr>))"
    by blast
  have msg: "msg = ''The function named 'f' will soon be deprecated in CyIpopt. Please replace all uses and use 'g' going forward.''"
    using both(1) unfolding first by (simp add: example_heap_def example_f_def)
  have second: "call_wrapper example_wrapper [1, 2] [] ?s1 =
       (Inr 3, example_heap\<lparr>emitted :=
         [(''The function named 'f' will soon be deprecated in CyIpopt. Please replace all uses and use 'g' going forward.'',
           FutureWarning),
          (''The function named 'f' will soon be deprecated in CyIpopt. Please replace all uses and use 'g' going forward.'',
           FutureWarning)]\<rparr>)"
    using both(2) unfolding msg first by (simp add: example_heap_def example_f_def)
  from example_decorated same first second show ?thesis by simp
qed

end
